theory Spec2Isabelle
  imports Complex_Main "HOL-Library.Word"
begin

section \<open>Python strings and bytes\<close>

text \<open>
  A Python \<open>str\<close> is a sequence of Unicode code points, a \<open>bytes\<close> object a sequence
  of octets. The glue of \<open>gen-srgb-lut.py\<close> only handles ASCII text and uses HOL's
  \<open>string\<close>; the remote-control command handles arbitrary text and uses \<open>pystr\<close>.
\<close>

type_synonym codepoint = nat
type_synonym pystr = "codepoint list"
type_synonym byte = "8 word"
type_synonym bytes = "byte list"

text \<open>\<open>sep.join(xs)\<close>\<close>

fun join :: "'a list \<Rightarrow> 'a list list \<Rightarrow> 'a list" where
  "join sep [] = []"
| "join sep [x] = x"
| "join sep (x # y # ys) = x @ sep @ join sep (y # ys)"

text \<open>\<open>s.rstrip(c)\<close> for a one-character argument: every trailing \<open>c\<close> goes.\<close>

definition rstrip :: "'a \<Rightarrow> 'a list \<Rightarrow> 'a list" where
  "rstrip c s = rev (dropWhile (\<lambda>x. x = c) (rev s))"

text \<open>\<open>xs[a:b]\<close> for non-negative \<open>a\<close>, \<open>b\<close>; \<open>xs[:n]\<close> is \<open>take n xs\<close>
  and \<open>xs[n:]\<close> is \<open>drop n xs\<close>.\<close>

definition py_slice :: "nat \<Rightarrow> nat \<Rightarrow> 'a list \<Rightarrow> 'a list" where
  "py_slice a b xs = take (b - a) (drop a xs)"

section \<open>\<open>gen-srgb-lut.py\<close>\<close>

text \<open>
  \<open>to_linear\<close> is floating-point arithmetic and \<open>'{:1.5f}'.format\<close> renders a float;
  both stay outside the model. The parameter \<open>fmt i\<close> stands for the text
  \<open>'{:1.5f}'.format(to_linear(i / 255.0))\<close>; the trailing \<open>f\<close> of the format string
  \<open>'{:1.5f}f'\<close> is literal text and is modelled.
\<close>

definition value_str :: "(nat \<Rightarrow> string) \<Rightarrow> nat \<Rightarrow> string" where
  "value_str fmt i = fmt i @ ''f''"

text \<open>
  \<open>generate_srgb_lut\<close>: the first loop fills \<open>values\<close>, the second builds sixteen lines,
  each ending in a comma, and the assignment to \<open>lines[-1]\<close> strips the commas that
  end the last line. (\<open>lru_cache\<close> memoises a pure function and changes no result.)
\<close>

definition generate_srgb_lut :: "(nat \<Rightarrow> string) \<Rightarrow> string \<Rightarrow> string list" where
  "generate_srgb_lut fmt line_prefix =
     (let vals = map (value_str fmt) [0..<256];
          lines = map (\<lambda>i. line_prefix @ join '', '' (py_slice (i * 16) ((i + 1) * 16) vals) @ '','')
                    [0..<16]
      in lines[length lines - 1 := rstrip CHR '','' (lines ! (length lines - 1))])"

section \<open>\<open>kitty/rc/send_text.py\<close>: text, payloads and errors\<close>

text \<open>A string literal of the source, as code points.\<close>

definition ascii :: "string \<Rightarrow> pystr" where
  "ascii s = map of_char s"

text \<open>\<open>s.partition(c)\<close>: the text before the first \<open>c\<close>, the separator, the text after
  it; the whole text and two empty strings when \<open>c\<close> does not occur.\<close>

definition str_partition :: "'a \<Rightarrow> 'a list \<Rightarrow> 'a list \<times> 'a list \<times> 'a list" where
  "str_partition c s =
     (if c \<in> set s
      then (takeWhile (\<lambda>x. x \<noteq> c) s, [c], tl (dropWhile (\<lambda>x. x \<noteq> c) s))
      else (s, [], []))"

text \<open>\<open>q.encode('utf-8')\<close>: one to four octets per code point; a surrogate raises
  \<open>UnicodeEncodeError\<close> (\<open>None\<close>). A Python \<open>str\<close> holds no code point above
  \<open>0x10FFFF\<close>; the encoder rejects those too.\<close>

definition utf8_encode_cp :: "codepoint \<Rightarrow> bytes option" where
  "utf8_encode_cp c =
     (if c < 0x80 then Some [of_nat c]
      else if c < 0x800 then Some [of_nat (0xC0 + c div 0x40), of_nat (0x80 + c mod 0x40)]
      else if 0xD800 \<le> c \<and> c < 0xE000 then None
      else if c < 0x10000 then
        Some [of_nat (0xE0 + c div 0x1000), of_nat (0x80 + c div 0x40 mod 0x40), of_nat (0x80 + c mod 0x40)]
      else if c < 0x110000 then
        Some [of_nat (0xF0 + c div 0x40000), of_nat (0x80 + c div 0x1000 mod 0x40),
              of_nat (0x80 + c div 0x40 mod 0x40), of_nat (0x80 + c mod 0x40)]
      else None)"

fun utf8_encode :: "pystr \<Rightarrow> bytes option" where
  "utf8_encode [] = Some []"
| "utf8_encode (c # cs) =
     (case utf8_encode_cp c of
        None \<Rightarrow> None
      | Some b \<Rightarrow> (case utf8_encode cs of None \<Rightarrow> None | Some bs \<Rightarrow> Some (b @ bs)))"

text \<open>\<open>bdata.decode('ascii')\<close>: an octet above 127 raises \<open>UnicodeDecodeError\<close>.\<close>

definition ascii_decode :: "bytes \<Rightarrow> pystr option" where
  "ascii_decode bs = (if list_all (\<lambda>b. b < 0x80) bs then Some (map unat bs) else None)"

text \<open>The exceptions the two sides of the command can raise.\<close>

datatype error =
    MatchError pystr string
  | ValueError pystr
  | TypeError pystr
  | UnboundLocalError string
  | UnicodeEncodeError
  | UnicodeDecodeError
  | Base64Error
  | OSError

text \<open>
  The dictionary \<open>ret\<close> that \<open>message_to_kitty\<close> yields and \<open>payload_get\<close> reads.
  \<open>match\<close> and \<open>match_tab\<close> are only tested for truth and used when true, so \<open>None\<close>
  and \<open>''\<close> are both the empty string here; \<open>p_session_id\<close> is
  \<open>payload_get('session_id', '')\<close>, empty when the key is absent.
\<close>

record payload =
  p_match :: pystr
  p_data :: pystr
  p_match_tab :: pystr
  p_all :: bool
  p_exclude_active :: bool
  p_session_id :: pystr

section \<open>\<open>SendText.message_to_kitty\<close>: the chunk encoder\<close>

record cli_options =
  opt_match :: pystr
  opt_match_tab :: pystr
  opt_all :: bool
  opt_stdin :: bool
  opt_from_file :: pystr
  opt_exclude_active :: bool

text \<open>
  What the client reads from its surroundings. \<open>tty_reads\<close> scripts the terminal: one
  entry per round of the loop in \<open>pipe\<close>, \<open>None\<close> when \<open>wait_till_read_available\<close>
  answers false and \<open>Some d\<close> when \<open>tty.read(limit)\<close> returns \<open>d\<close>; a script that is
  used up reads as end of input. \<open>stdin_buffer\<close> is the content of a piped standard
  input, \<open>open_rb path\<close> the content of a file (\<open>None\<close>: \<open>open\<close> raises). The codecs
  of the Python runtime (\<open>bytes.decode('utf-8')\<close>, \<open>base64.standard_b64encode\<close>) and
  \<open>kitty.options.utils.parse_send_text_bytes\<close> are parameters.
\<close>

record client_env =
  isatty :: bool
  tty_reads :: "bytes option list"
  stdin_buffer :: bytes
  open_rb :: "pystr \<Rightarrow> bytes option"
  utf8_decode :: "bytes \<Rightarrow> pystr option"
  b64encode :: "bytes \<Rightarrow> pystr"
  parse_send_text_bytes :: "pystr \<Rightarrow> bytes"

definition limit :: nat where
  "limit = 1024"

text \<open>
  The slicing loop of \<open>chunks\<close> (\<open>while data: \<dots> data[:limit] \<dots> data = data[limit:]\<close>);
  the loops of \<open>file_pipe\<close> and of the piped branch of \<open>pipe\<close> read a buffered
  stream \<open>limit\<close> octets at a time until a read returns nothing, which cuts its
  content the same way.
\<close>

function blocks :: "'a list \<Rightarrow> 'a list list" where
  "blocks data = (if data = [] then [] else take limit data # blocks (drop limit data))"
  by pat_completeness auto
termination
  by (relation "measure length") (auto simp: limit_def)

text \<open>
  A generator of the source runs on the shared dictionary \<open>ret\<close>: it returns the
  payloads it yields (each a snapshot of \<open>ret\<close> at its \<open>yield\<close>, the consumer sends
  one before asking for the next), the dictionary as it leaves it, and the exception
  that ended it, if any.
\<close>

type_synonym generator = "payload \<Rightarrow> payload list \<times> payload \<times> error option"

fun yield_all :: "pystr list \<Rightarrow> generator" where
  "yield_all [] ret = ([], ret, None)"
| "yield_all (d # ds) ret =
     (let ret1 = ret\<lparr>p_data := d\<rparr>;
          (ps, ret2, e) = yield_all ds ret1
      in (ret1 # ps, ret2, e))"

fun tty_loop :: "(bytes \<Rightarrow> pystr option) \<Rightarrow> bytes option list \<Rightarrow> generator" where
  "tty_loop dec [] ret = ([], ret, None)"
| "tty_loop dec (None # rs) ret = ([], ret, None)"
| "tty_loop dec (Some d # rs) ret =
     (if d = [] then ([], ret, None)
      else case dec d of
        None \<Rightarrow> ([], ret, Some UnicodeDecodeError)
      | Some decoded_data \<Rightarrow>
          if 4 \<in> set decoded_data
          then (let ret1 = ret\<lparr>p_data := ascii ''text:'' @ takeWhile (\<lambda>c. c \<noteq> 4) decoded_data\<rparr>
                in ([ret1], ret1, None))
          else (let ret1 = ret\<lparr>p_data := ascii ''text:'' @ decoded_data\<rparr>;
                    (ps, ret2, e) = tty_loop dec rs ret1
                in (ret1 # ps, ret2, e)))"

definition pipe :: "client_env \<Rightarrow> generator" where
  "pipe env ret =
     (if isatty env
      then tty_loop (utf8_decode env) (tty_reads env) (ret\<lparr>p_exclude_active := True\<rparr>)
      else yield_all (map (\<lambda>d. ascii ''base64:'' @ b64encode env d) (blocks (stdin_buffer env))) ret)"

definition chunks :: "client_env \<Rightarrow> pystr \<Rightarrow> generator" where
  "chunks env text ret =
     (case utf8_decode env (parse_send_text_bytes env text) of
        None \<Rightarrow> ([], ret, Some UnicodeDecodeError)
      | Some data \<Rightarrow> yield_all (map (\<lambda>d. ascii ''text:'' @ d) (blocks data)) ret)"

definition file_pipe :: "client_env \<Rightarrow> pystr \<Rightarrow> generator" where
  "file_pipe env path ret =
     (case open_rb env path of
        None \<Rightarrow> ([], ret, Some OSError)
      | Some f \<Rightarrow> yield_all (map (\<lambda>d. ascii ''base64:'' @ b64encode env d) (blocks f)) ret)"

text \<open>\<open>chain\<close>: the sources one after the other; an exception ends the sequence.\<close>

fun chain :: "generator list \<Rightarrow> payload \<Rightarrow> payload list \<times> error option" where
  "chain [] ret = ([], None)"
| "chain (src # sources) ret =
     (case src ret of
        (ps, ret1, Some e) \<Rightarrow> (ps, Some e)
      | (ps, ret1, None) \<Rightarrow> (let (qs, e) = chain sources ret1 in (ps @ qs, e)))"

definition message_to_kitty ::
    "client_env \<Rightarrow> cli_options \<Rightarrow> pystr list \<Rightarrow> payload list \<times> error option" where
  "message_to_kitty env opts args =
     (let ret = \<lparr>p_match = opt_match opts, p_data = [], p_match_tab = opt_match_tab opts,
                 p_all = opt_all opts, p_exclude_active = opt_exclude_active opts, p_session_id = []\<rparr>;
          sources = (if opt_stdin opts then [pipe env] else []) @
                    (if opt_from_file opts \<noteq> [] then [file_pipe env (opt_from_file opts)] else []) @
                    [chunks env (join (ascii '' '') args)]
      in chain sources ret)"

section \<open>The host: sessions, windows and timers\<close>

type_synonym wid = nat

text \<open>A decoded \<open>WindowSystemKeyEvent\<close>, kept opaque.\<close>

type_synonym key_event = nat

text \<open>Class \<open>Session\<close>: \<open>timer_id = 0\<close> means that no timer is recorded.\<close>

record session =
  session_id :: pystr
  window_ids :: "wid set"
  timer_id :: nat

text \<open>
  Modelled from the spec: the window and tab registry of class \<open>Boss\<close>, which is not
  among the source files (section 6: \<open>allTargets\<close>, \<open>activeTarget\<close>,
  \<open>resolveByWindowPredicate\<close>, \<open>resolveByTabPredicate\<close> with \<open>membersOf\<close>). Windows are
  named by their ids, which are unique, so the identity test \<open>w is not
  boss.active_window\<close> is a comparison of ids; a tab is the list of its windows;
  \<open>window_id_map\<close> holds the ids that \<open>boss.window_id_map.get\<close> finds.
\<close>

record boss =
  all_windows :: "wid list"
  active_window :: "wid option"
  match_windows :: "pystr \<Rightarrow> wid list"
  match_tabs :: "pystr \<Rightarrow> wid list list"
  window_id_map :: "wid set"

text \<open>
  What the handler takes from outside the file: \<open>base64.standard_b64decode\<close>
  (\<open>None\<close>: it raises), \<open>decode_key_event_as_window_system_key\<close>,
  \<open>Window.encoded_key\<close> and the option \<open>cursor_stop_blinking_after\<close>.
\<close>

record host_env =
  b64decode :: "pystr \<Rightarrow> bytes option"
  decode_key_event :: "pystr \<Rightarrow> key_event option"
  encoded_key :: "wid \<Rightarrow> key_event \<Rightarrow> bytes"
  cursor_stop_blinking_after :: real

text \<open>
  The state the handler works on: the module's \<open>sessions_map\<close>; the timers that are
  scheduled and have not fired, each with its id, the session id bound in its callback
  \<open>partial(clear_unfocused_cursors, sid)\<close> and its delay; per window the flag
  \<open>screen.render_unfocused_cursor\<close> and the list \<open>actions_on_close\<close> (the session ids
  bound in the registered callbacks); and the calls of \<open>write_to_child\<close>, in order.
\<close>

record kitty =
  sessions_map :: "pystr \<rightharpoonup> session"
  timers :: "(nat \<times> pystr \<times> real) list"
  timer_counter :: nat
  render_unfocused_cursor :: "wid \<Rightarrow> nat"
  child_input :: "(wid \<times> bytes) list"
  actions_on_close :: "wid \<Rightarrow> pystr list"

text \<open>
  Modelled from the spec: \<open>add_timer\<close> and \<open>remove_timer\<close> of
  \<open>kitty.fast_data_types\<close>, which are not among the source files (section 6:
  \<open>scheduleOnce(callback, delay) -> TimerHandle\<close>, \<open>cancel(TimerHandle)\<close>). Handles are
  handed out by a counter, so a handle is never \<open>0\<close> and never one handed out before.
\<close>

definition add_timer :: "pystr \<Rightarrow> real \<Rightarrow> kitty \<Rightarrow> nat \<times> kitty" where
  "add_timer sid interval st =
     (let tid = timer_counter st + 1
      in (tid, st\<lparr>timers := timers st @ [(tid, sid, interval)], timer_counter := tid\<rparr>))"

definition remove_timer :: "nat \<Rightarrow> kitty \<Rightarrow> kitty" where
  "remove_timer tid st = st\<lparr>timers := filter (\<lambda>t. fst t \<noteq> tid) (timers st)\<rparr>"

text \<open>
  \<open>clear_unfocused_cursors\<close>: pops the session and clears the flag of each member the
  registry still knows. The loop body touches one window per member, so the order in
  which the set is walked does not matter.
\<close>

definition clear_unfocused_cursors :: "boss \<Rightarrow> pystr \<Rightarrow> kitty \<Rightarrow> kitty" where
  "clear_unfocused_cursors boss sid st =
     (case sessions_map st sid of
        None \<Rightarrow> st
      | Some s \<Rightarrow>
          st\<lparr>sessions_map := (sessions_map st)(sid := None),
             render_unfocused_cursor :=
               (\<lambda>w. if w \<in> window_ids s \<and> w \<in> window_id_map boss then 0
                    else render_unfocused_cursor st w)\<rparr>)"

section \<open>\<open>SendText.response_from_kitty\<close>\<close>

text \<open>Lines 151 to 165: the windows the request names.\<close>

definition resolve_windows :: "boss \<Rightarrow> payload \<Rightarrow> error + wid option list" where
  "resolve_windows boss p =
     (if p_all p then Inr (map Some (all_windows boss))
      else
        let windows = [active_window boss];
            windows = (if p_match p \<noteq> [] then map Some (match_windows boss (p_match p)) else windows)
        in if p_match_tab p \<noteq> [] then
             (let tabs = match_tabs boss (p_match_tab p)
              in if tabs = [] then Inl (MatchError (p_match_tab p) ''tabs'')
                 else Inr (map Some (concat tabs)))
           else Inr windows)"

text \<open>The value the local variable \<open>data\<close> holds once it is assigned.\<close>

datatype decoded = Bytes bytes | KeyEvent key_event

text \<open>
  Lines 166 to 182: the local variables \<open>data\<close> and \<open>session\<close> after the chain of tests
  on the encoding. \<open>data\<close> is \<open>None\<close> where no branch assigns it (the \<open>session\<close>
  branch).
\<close>

definition decode_data :: "host_env \<Rightarrow> pystr \<Rightarrow> error + decoded option \<times> pystr" where
  "decode_data env pdata =
     (case str_partition 58 pdata of (encoding, _, q) \<Rightarrow>
        if encoding = ascii ''text'' then
          (case utf8_encode q of None \<Rightarrow> Inl UnicodeEncodeError | Some b \<Rightarrow> Inr (Some (Bytes b), []))
        else if encoding = ascii ''base64'' then
          (case b64decode env q of None \<Rightarrow> Inl Base64Error | Some b \<Rightarrow> Inr (Some (Bytes b), []))
        else if encoding = ascii ''kitty-key'' then
          (case b64decode env q of
             None \<Rightarrow> Inl Base64Error
           | Some bdata \<Rightarrow>
               (case ascii_decode bdata of
                  None \<Rightarrow> Inl UnicodeDecodeError
                | Some s \<Rightarrow>
                    (case decode_key_event env s of
                       None \<Rightarrow> Inl (ValueError q)
                     | Some candidate \<Rightarrow> Inr (Some (KeyEvent candidate), []))))
        else if encoding = ascii ''session'' then Inr (None, q)
        else Inl (TypeError encoding))"

text \<open>Line 184: the generator \<open>actual_windows\<close>.\<close>

definition actual_windows :: "boss \<Rightarrow> bool \<Rightarrow> wid option list \<Rightarrow> wid list" where
  "actual_windows boss exclude_active windows =
     [w. Some w \<leftarrow> windows, \<not> exclude_active \<or> Some w \<noteq> active_window boss]"

text \<open>
  Lines 187 to 192. The source returns the session object, which stays in
  \<open>sessions_map\<close>; the callers' later writes to it go through \<open>update_session\<close>.
\<close>

definition create_or_update_session :: "pystr \<Rightarrow> kitty \<Rightarrow> kitty" where
  "create_or_update_session sid st =
     (let s = (case sessions_map st sid of
                 None \<Rightarrow> \<lparr>session_id = sid, window_ids = {}, timer_id = 0\<rparr>
               | Some s \<Rightarrow> s)
      in if timer_id s \<noteq> 0
         then (remove_timer (timer_id s) st)\<lparr>sessions_map := (sessions_map st)(sid \<mapsto> s\<lparr>timer_id := 0\<rparr>)\<rparr>
         else st\<lparr>sessions_map := (sessions_map st)(sid \<mapsto> s)\<rparr>)"

definition update_session :: "pystr \<Rightarrow> (session \<Rightarrow> session) \<Rightarrow> kitty \<Rightarrow> kitty" where
  "update_session sid f st =
     (case sessions_map st sid of
        None \<Rightarrow> st
      | Some s \<Rightarrow> st\<lparr>sessions_map := (sessions_map st)(sid \<mapsto> f s)\<rparr>)"

text \<open>Line 193. The option is a float; the test and \<open>max\<close> are exact on it.\<close>

definition blink_time :: "host_env \<Rightarrow> real" where
  "blink_time env =
     (if cursor_stop_blinking_after env = 0 then 15 else max 3 (cursor_stop_blinking_after env))"

text \<open>\<open>s.timer_id = add_timer(partial(clear_unfocused_cursors, sid), blink_time, False)\<close>\<close>

definition schedule_expiry :: "host_env \<Rightarrow> pystr \<Rightarrow> kitty \<Rightarrow> kitty" where
  "schedule_expiry env sid st =
     (case add_timer sid (blink_time env) st of
        (tid, st1) \<Rightarrow> update_session sid (\<lambda>s. s\<lparr>timer_id := tid\<rparr>) st1)"

text \<open>The bodies of the loops of lines 197 to 199 and 206 to 208 (and 214 to 216).\<close>

definition unmark_window :: "pystr \<Rightarrow> wid \<Rightarrow> kitty \<Rightarrow> kitty" where
  "unmark_window sid w st =
     update_session sid (\<lambda>s. s\<lparr>window_ids := window_ids s - {w}\<rparr>)
       (st\<lparr>render_unfocused_cursor := (render_unfocused_cursor st)(w := 0)\<rparr>)"

definition mark_window :: "pystr \<Rightarrow> wid \<Rightarrow> kitty \<Rightarrow> kitty" where
  "mark_window sid w st =
     update_session sid (\<lambda>s. s\<lparr>window_ids := insert w (window_ids s)\<rparr>)
       (st\<lparr>render_unfocused_cursor := (render_unfocused_cursor st)(w := 1)\<rparr>)"

definition write_to_child :: "wid \<Rightarrow> bytes \<Rightarrow> kitty \<Rightarrow> kitty" where
  "write_to_child w b st = st\<lparr>child_input := child_input st @ [(w, b)]\<rparr>"

text \<open>
  Lines 213 to 222: the delivery loop. Reading \<open>data\<close> when no branch assigned it
  raises \<open>UnboundLocalError\<close>, after the window was marked when a session id is given.
\<close>

fun deliver ::
    "host_env \<Rightarrow> pystr \<Rightarrow> decoded option \<Rightarrow> wid list \<Rightarrow> kitty \<Rightarrow> error option \<times> kitty" where
  "deliver env sid data [] st = (None, st)"
| "deliver env sid data (w # ws) st =
     (let st1 = (if sid \<noteq> [] then mark_window sid w st else st)
      in case data of
           None \<Rightarrow> (Some (UnboundLocalError ''data''), st1)
         | Some (KeyEvent k) \<Rightarrow>
             (let kdata = encoded_key env w k
              in deliver env sid data ws (if kdata \<noteq> [] then write_to_child w kdata st1 else st1))
         | Some (Bytes b) \<Rightarrow> deliver env sid data ws (write_to_child w b st1))"

text \<open>
  \<open>response_from_kitty boss window payload_get\<close>: the exception raised, if any, and the
  state it leaves. \<open>window\<close> is the window the request came from, if it came from one.
\<close>

definition response_from_kitty ::
    "host_env \<Rightarrow> boss \<Rightarrow> wid option \<Rightarrow> payload \<Rightarrow> kitty \<Rightarrow> error option \<times> kitty" where
  "response_from_kitty env boss window p st =
     (case resolve_windows boss p of
        Inl e \<Rightarrow> (Some e, st)
      | Inr windows \<Rightarrow>
          (case decode_data env (p_data p) of
             Inl e \<Rightarrow> (Some e, st)
           | Inr (data, session) \<Rightarrow>
               (let aw = actual_windows boss (p_exclude_active p) windows;
                    sid = p_session_id p
                in if session = ascii ''end'' then
                     (None, clear_unfocused_cursors boss sid
                              (fold (unmark_window sid) aw (create_or_update_session sid st)))
                   else if session = ascii ''start'' then
                     (let st1 = create_or_update_session sid st;
                          st2 = (case window of
                                   None \<Rightarrow> st1
                                 | Some w \<Rightarrow>
                                     st1\<lparr>actions_on_close :=
                                           (actions_on_close st1)(w := actions_on_close st1 w @ [sid])\<rparr>);
                          st3 = schedule_expiry env sid st2
                      in (None, fold (mark_window sid) aw st3))
                   else
                     (let st1 = (if sid \<noteq> []
                                 then schedule_expiry env sid (create_or_update_session sid st)
                                 else st)
                      in deliver env sid data aw st1))))"

section \<open>The callbacks the handler registers\<close>

text \<open>
  Modelled from the spec: the event loop that fires a timer, which is not among the
  source files (section 5: a timer is a callback registered with the loop, fired at
  most once unless rescheduled). A timer that fires leaves the scheduled timers and
  runs its callback \<open>clear_unfocused_cursors(sid, timer_id)\<close>.
\<close>

definition timer_fired :: "boss \<Rightarrow> nat \<Rightarrow> kitty \<Rightarrow> kitty" where
  "timer_fired boss tid st =
     (case find (\<lambda>t. fst t = tid) (timers st) of
        None \<Rightarrow> st
      | Some (_, sid, _) \<Rightarrow> clear_unfocused_cursors boss sid (remove_timer tid st))"

text \<open>
  Modelled from the spec: the close of a window, done by class \<open>Window\<close>, which is not
  among the source files (section 4.3: closing the window runs the registered
  close-hook, the same cleanup as expiry). Each callback appended to
  \<open>actions_on_close\<close> at line 204 runs as \<open>clear_unfocused_cursors(sid, window)\<close>.
\<close>

definition window_closed :: "boss \<Rightarrow> wid \<Rightarrow> kitty \<Rightarrow> kitty" where
  "window_closed boss w st = fold (clear_unfocused_cursors boss) (actions_on_close st w) st"

section \<open>Notions the properties are stated with\<close>

text \<open>The ids of the timers scheduled for a session id.\<close>

definition timers_of :: "pystr \<Rightarrow> kitty \<Rightarrow> nat list" where
  "timers_of sid st = map fst (filter (\<lambda>t. fst (snd t) = sid) (timers st))"

text \<open>Line 167 read on a payload: \<open>encoding, _, q = pdata.partition(':')\<close>.\<close>

definition payload_encoding :: "payload \<Rightarrow> pystr" where
  "payload_encoding p = fst (str_partition 58 (p_data p))"

definition payload_text :: "payload \<Rightarrow> pystr" where
  "payload_text p = snd (snd (str_partition 58 (p_data p)))"

text \<open>The session \<open>create_or_update_session\<close> returns.\<close>

definition fresh_session :: "pystr \<Rightarrow> kitty \<Rightarrow> session" where
  "fresh_session sid st =
     (case sessions_map st sid of
        None \<Rightarrow> \<lparr>session_id = sid, window_ids = {}, timer_id = 0\<rparr>
      | Some s \<Rightarrow> s\<lparr>timer_id := 0\<rparr>)"

text \<open>A generator that yields only payloads with \<open>exclude_active\<close> set, and leaves it
  set, when it is started with it set.\<close>

definition keeps_exclude :: "generator \<Rightarrow> bool" where
  "keeps_exclude g \<longleftrightarrow>
     (\<forall>ret ps ret1 e. g ret = (ps, ret1, e) \<longrightarrow> p_exclude_active ret \<longrightarrow>
        (\<forall>p\<in>set ps. p_exclude_active p) \<and> p_exclude_active ret1)"

text \<open>
  Every timer scheduled for a session id is the one its session records (and a
  recorded timer is never timer 0, which stands for none).
\<close>

definition recorded_timers :: "pystr \<Rightarrow> kitty \<Rightarrow> bool" where
  "recorded_timers sid st \<longleftrightarrow>
     list_all (\<lambda>t. fst (snd t) = sid \<longrightarrow>
                 fst t \<noteq> 0 \<and>
                 (case sessions_map st sid of None \<Rightarrow> False | Some s \<Rightarrow> timer_id s = fst t))
       (timers st)"

section \<open>Example inputs\<close>

text \<open>A client whose codecs are the identity on ASCII, with a scripted terminal.\<close>

definition wenv :: client_env where
  "wenv = \<lparr>isatty = True, tty_reads = [Some [104, 105], Some [97, 4, 98], Some [99]],
     stdin_buffer = [1, 2, 3], open_rb = (\<lambda>p. None), utf8_decode = (\<lambda>b. Some (map unat b)),
     b64encode = (\<lambda>b. map unat b), parse_send_text_bytes = (\<lambda>s. map of_nat s)\<rparr>"

text \<open>A dictionary \<open>ret\<close> with every field empty or false.\<close>

definition ret0 :: payload where
  "ret0 = \<lparr>p_match = [], p_data = [], p_match_tab = [], p_all = False,
            p_exclude_active = False, p_session_id = []\<rparr>"


text \<open>The options \<open>--stdin\<close> alone.\<close>

definition wopts :: cli_options where
  "wopts = \<lparr>opt_match = [], opt_match_tab = [], opt_all = False, opt_stdin = True,
            opt_from_file = [], opt_exclude_active = False\<rparr>"

text \<open>A host whose base64 codec is the identity on octets and that knows no key.\<close>

definition henv :: host_env where
  "henv = \<lparr>b64decode = (\<lambda>s. Some (map of_nat s)), decode_key_event = (\<lambda>s. None),
            encoded_key = (\<lambda>w k. []), cursor_stop_blinking_after = 0\<rparr>"

text \<open>A registry of three windows in one tab named \<open>t\<close>; window 1 is active.\<close>

definition boss3 :: boss where
  "boss3 = \<lparr>all_windows = [1, 2, 3], active_window = Some 1,
             match_windows = (\<lambda>m. if m = ascii ''id:2'' then [2] else []),
             match_tabs = (\<lambda>m. if m = ascii ''t'' then [[1, 2, 3]] else []),
             window_id_map = {1, 2, 3}\<rparr>"

text \<open>The state of a host that has served no request.\<close>

definition init :: kitty where
  "init = \<lparr>sessions_map = Map.empty, timers = [], timer_counter = 0,
            render_unfocused_cursor = (\<lambda>w. 0), child_input = [], actions_on_close = (\<lambda>w. [])\<rparr>"

text \<open>A request to all windows.\<close>

definition request :: "string \<Rightarrow> string \<Rightarrow> payload" where
  "request d sid = \<lparr>p_match = [], p_data = ascii d, p_match_tab = [], p_all = True,
                    p_exclude_active = False, p_session_id = ascii sid\<rparr>"

text \<open>The state a \<open>start\<close> control for session \<open>a\<close>, sent to all windows, leaves.\<close>

definition started :: kitty where
  "started = snd (response_from_kitty henv boss3 None (request ''session:start'' ''a'') init)"

text \<open>The same control sent from window 1, which registers the close action there.\<close>

definition hooked :: kitty where
  "hooked = snd (response_from_kitty henv boss3 (Some 1) (request ''session:start'' ''a'') init)"

text \<open>Window 1 is closed: its close actions run.\<close>

definition orphaned :: kitty where
  "orphaned = window_closed boss3 1 hooked"

text \<open>The registry once window 1 is gone; window 2 is active.\<close>

definition boss23 :: boss where
  "boss23 = \<lparr>all_windows = [2, 3], active_window = Some 2,
              match_windows = (\<lambda>m. if m = ascii ''id:2'' then [2] else []),
              match_tabs = (\<lambda>m. if m = ascii ''t'' then [[2, 3]] else []),
              window_id_map = {2, 3}\<rparr>"

text \<open>Session \<open>a\<close> is started again, and then ended.\<close>

definition restarted :: kitty where
  "restarted = snd (response_from_kitty henv boss23 None (request ''session:start'' ''a'') orphaned)"

definition ended :: kitty where
  "ended = snd (response_from_kitty henv boss23 None (request ''session:end'' ''a'') restarted)"

section \<open>Properties of \<open>generate_srgb_lut\<close>\<close>

lemma join_last:
  "xs \<noteq> [] \<Longrightarrow> last xs \<noteq> [] \<Longrightarrow> join sep xs \<noteq> [] \<and> last (join sep xs) = last (last xs)"
  by (induction sep xs rule: join.induct) auto

lemma rstrip_snoc:
  "s \<noteq> [] \<Longrightarrow> last s \<noteq> c \<Longrightarrow> rstrip c (s @ [c]) = s"
  by (cases s rule: rev_cases) (auto simp: rstrip_def)

lemma slice_vals:
  "i < 16 \<Longrightarrow> py_slice (i * 16) ((i + 1) * 16) (map f [0..<256]) = map f [i * 16..<i * 16 + 16]"
  by (simp add: py_slice_def take_map drop_map drop_upt take_upt)

lemma row_last:
  "join sep (map (value_str fmt) [n..<n + 16]) \<noteq> [] \<and>
   last (join sep (map (value_str fmt) [n..<n + 16])) = CHR ''f''"
proof -
  let ?xs = "map (value_str fmt) [n..<n + 16]"
  have ne: "?xs \<noteq> []" by simp
  have l: "last ?xs = value_str fmt (n + 15)"
    by (simp add: last_map add.commute)
  have "last ?xs \<noteq> []" unfolding l by (simp add: value_str_def)
  from join_last[OF ne this, of sep] show ?thesis
    unfolding l by (simp add: value_str_def)
qed

lemma lut_nth:
  assumes "i < 16"
  shows "generate_srgb_lut fmt p ! i =
       p @ join '', '' (map (value_str fmt) [i * 16..<i * 16 + 16]) @ (if i < 15 then '','' else '''')"
proof -
  let ?g = "\<lambda>i. p @ join '', '' (py_slice (i * 16) ((i + 1) * 16) (map (value_str fmt) [0..<256])) @ '',''"
  let ?J = "\<lambda>i. join '', '' (map (value_str fmt) [i * 16..<i * 16 + 16])"
  have g: "?g k = p @ ?J k @ '',''" if "k < 16" for k
    using slice_vals[OF that, of "value_str fmt"] by simp
  have res: "generate_srgb_lut fmt p = (map ?g [0..<16])[15 := rstrip CHR '','' (?g 15)]"
    by (simp add: generate_srgb_lut_def Let_def)
  show ?thesis
  proof (cases "i = 15")
    case True
    have "rstrip CHR '','' ((p @ ?J 15) @ [CHR '','']) = p @ ?J 15"
      using row_last[of "'', ''" fmt "15 * 16"] by (intro rstrip_snoc) auto
    then have "rstrip CHR '','' (?g 15) = p @ ?J 15"
      using g[of 15] by simp
    then show ?thesis using True by (simp add: res)
  next
    case False
    then have "generate_srgb_lut fmt p ! i = ?g i"
      using assms by (simp add: res)
    then show ?thesis using g[OF assms] False assms by simp
  qed
qed

text \<open>
  Claim C10. For every line prefix \<open>p\<close> (and whatever text the float formatting yields),
  \<open>generate_srgb_lut\<close> returns exactly 16 lines; line \<open>i\<close> is the prefix followed by the
  16 values \<open>16 i, \<dots>, 16 i + 15\<close> joined by \<open>", "\<close>, so the lines together carry
  the 256 values in order; each of the first 15 lines ends with a comma and the last
  line does not.
\<close>

theorem generate_srgb_lut_lines:
  "length (generate_srgb_lut fmt p) = 16 \<and>
   (\<forall>i<16. generate_srgb_lut fmt p ! i =
       p @ join '', '' (map (value_str fmt) [i * 16..<i * 16 + 16]) @ (if i < 15 then '','' else '''')) \<and>
   (\<forall>i<15. last (generate_srgb_lut fmt p ! i) = CHR '','') \<and>
   last (generate_srgb_lut fmt p ! 15) \<noteq> CHR '',''"
proof (intro conjI allI impI)
  show "length (generate_srgb_lut fmt p) = 16"
    by (simp add: generate_srgb_lut_def Let_def)
next
  fix i :: nat assume "i < 16"
  then show "generate_srgb_lut fmt p ! i =
       p @ join '', '' (map (value_str fmt) [i * 16..<i * 16 + 16]) @ (if i < 15 then '','' else '''')"
    by (rule lut_nth)
next
  fix i :: nat assume "i < 15"
  then show "last (generate_srgb_lut fmt p ! i) = CHR '',''"
    by (simp add: lut_nth)
next
  show "last (generate_srgb_lut fmt p ! 15) \<noteq> CHR '',''"
    using row_last[of "'', ''" fmt "15 * 16"] by (simp add: lut_nth)
qed

theorem generate_srgb_lut_lines_witness:
  "length (generate_srgb_lut (\<lambda>i. ''0.5'') ''  '') = 16 \<and>
   generate_srgb_lut (\<lambda>i. ''0.5'') ''  '' ! 0 =
     ''  0.5f, 0.5f, 0.5f, 0.5f, 0.5f, 0.5f, 0.5f, 0.5f, 0.5f, 0.5f, 0.5f, 0.5f, 0.5f, 0.5f, 0.5f, 0.5f,'' \<and>
   last (generate_srgb_lut (\<lambda>i. ''0.5'') ''  '' ! 14) = CHR '','' \<and>
   last (generate_srgb_lut (\<lambda>i. ''0.5'') ''  '' ! 15) \<noteq> CHR '',''"
proof -
  note t = generate_srgb_lut_lines[of "\<lambda>i. ''0.5''" "''  ''"]
  have j: "join '', '' (map (value_str (\<lambda>i. ''0.5'')) [0..<16]) =
    ''0.5f, 0.5f, 0.5f, 0.5f, 0.5f, 0.5f, 0.5f, 0.5f, 0.5f, 0.5f, 0.5f, 0.5f, 0.5f, 0.5f, 0.5f, 0.5f''"
    by code_simp
  have a: "length (generate_srgb_lut (\<lambda>i. ''0.5'') ''  '') = 16"
    using t by (rule conjunct1)
  have b: "generate_srgb_lut (\<lambda>i. ''0.5'') ''  '' ! 0 =
     ''  0.5f, 0.5f, 0.5f, 0.5f, 0.5f, 0.5f, 0.5f, 0.5f, 0.5f, 0.5f, 0.5f, 0.5f, 0.5f, 0.5f, 0.5f, 0.5f,''"
    using t[THEN conjunct2, THEN conjunct1, rule_format, of 0] j by simp
  have c: "last (generate_srgb_lut (\<lambda>i. ''0.5'') ''  '' ! 14) = CHR '',''"
    using t[THEN conjunct2, THEN conjunct2, THEN conjunct1, rule_format, of 14] by simp
  have d: "last (generate_srgb_lut (\<lambda>i. ''0.5'') ''  '' ! 15) \<noteq> CHR '',''"
    using t[THEN conjunct2, THEN conjunct2, THEN conjunct2] .
  from a b c d show ?thesis by blast
qed

section \<open>Properties of the chunk encoder\<close>

declare blocks.simps [simp del]





lemma partition_text: "str_partition 58 (ascii ''text:'' @ c) = (ascii ''text'', [58], c)"
  by (simp add: str_partition_def ascii_def)




lemma payload_text_chunk [simp]:
  "payload_text (ret\<lparr>p_data := ascii ''text:'' @ c\<rparr>) = c"
  "payload_encoding (ret\<lparr>p_data := ascii ''text:'' @ c\<rparr>) = ascii ''text''"
  by (simp_all add: payload_text_def payload_encoding_def partition_text)




lemma yield_all_exclude:
  "yield_all ds ret = (ps, ret1, e) \<Longrightarrow> p_exclude_active ret \<Longrightarrow>
   (\<forall>p\<in>set ps. p_exclude_active p) \<and> p_exclude_active ret1"
proof (induction ds arbitrary: ret ps ret1 e)
  case Nil
  then show ?case by simp
next
  case (Cons d ds)
  obtain qs r2 e2 where y: "yield_all ds (ret\<lparr>p_data := d\<rparr>) = (qs, r2, e2)"
    by (cases "yield_all ds (ret\<lparr>p_data := d\<rparr>)") auto
  from Cons.IH[OF y] Cons.prems(2) have "(\<forall>p\<in>set qs. p_exclude_active p) \<and> p_exclude_active r2"
    by simp
  with Cons.prems y show ?case by (auto simp: Let_def)
qed

lemma tty_loop_exclude:
  "tty_loop dec rs ret = (ps, ret1, e) \<Longrightarrow> p_exclude_active ret \<Longrightarrow>
   (\<forall>p\<in>set ps. p_exclude_active p) \<and> p_exclude_active ret1"
proof (induction dec rs ret arbitrary: ps ret1 e rule: tty_loop.induct)
  case (1 dec ret)
  then show ?case by simp
next
  case (2 dec rs ret)
  then show ?case by simp
next
  case (3 dec d rs ret)
  show ?case
  proof (cases "d = [] \<or> dec d = None \<or> 4 \<in> set (the (dec d))")
    case True
    with "3.prems" show ?thesis by (auto simp: Let_def split: if_splits option.splits)
  next
    case False
    then obtain s where s: "d \<noteq> []" "dec d = Some s" "4 \<notin> set s" by auto
    let ?r = "ret\<lparr>p_data := ascii ''text:'' @ s\<rparr>"
    obtain qs r2 e2 where y: "tty_loop dec rs ?r = (qs, r2, e2)"
      by (cases "tty_loop dec rs ?r") auto
    from "3.IH"[OF s(1) s(2) s(3) refl y] "3.prems"(2)
    have "(\<forall>p\<in>set qs. p_exclude_active p) \<and> p_exclude_active r2" by simp
    with "3.prems" s y show ?thesis by (auto simp: Let_def)
  qed
qed

lemma keeps_yield_all: "keeps_exclude (yield_all ds)"
  unfolding keeps_exclude_def using yield_all_exclude by blast

lemma pipe_tty_exclude:
  assumes "isatty env" and "pipe env ret = (ps, ret1, e)"
  shows "(\<forall>p\<in>set ps. p_exclude_active p) \<and> p_exclude_active ret1"
proof -
  from assms have "tty_loop (utf8_decode env) (tty_reads env) (ret\<lparr>p_exclude_active := True\<rparr>) = (ps, ret1, e)"
    by (simp add: pipe_def)
  from tty_loop_exclude[OF this] show ?thesis by simp
qed

lemma keeps_file_pipe: "keeps_exclude (file_pipe env path)"
proof (cases "open_rb env path")
  case None
  then show ?thesis by (simp add: keeps_exclude_def file_pipe_def)
next
  case (Some f)
  then have "file_pipe env path = yield_all (map (\<lambda>d. ascii ''base64:'' @ b64encode env d) (blocks f))"
    by (intro ext) (simp add: file_pipe_def)
  then show ?thesis by (simp add: keeps_yield_all)
qed

lemma keeps_chunks: "keeps_exclude (chunks env text)"
proof (cases "utf8_decode env (parse_send_text_bytes env text)")
  case None
  then show ?thesis by (simp add: keeps_exclude_def chunks_def)
next
  case (Some data)
  then have "chunks env text = yield_all (map (\<lambda>d. ascii ''text:'' @ d) (blocks data))"
    by (intro ext) (simp add: chunks_def)
  then show ?thesis by (simp add: keeps_yield_all)
qed

lemma chain_exclude:
  "list_all keeps_exclude gs \<Longrightarrow> p_exclude_active ret \<Longrightarrow>
   \<forall>p\<in>set (fst (chain gs ret)). p_exclude_active p"
proof (induction gs arbitrary: ret)
  case Nil
  then show ?case by simp
next
  case (Cons g gs)
  obtain ps r1 e where g: "g ret = (ps, r1, e)" by (cases "g ret") auto
  from Cons.prems have "keeps_exclude g" by simp
  with g Cons.prems(2) have k: "(\<forall>p\<in>set ps. p_exclude_active p) \<and> p_exclude_active r1"
    unfolding keeps_exclude_def by blast
  show ?case
  proof (cases e)
    case None
    from Cons.prems(1) have "list_all keeps_exclude gs" by simp
    from Cons.IH[OF this, of r1] k have i: "\<forall>p\<in>set (fst (chain gs r1)). p_exclude_active p"
      by blast
    obtain qs e2 where c: "chain gs r1 = (qs, e2)" by (cases "chain gs r1") auto
    have "fst (chain (g # gs) ret) = ps @ qs"
      using g None c by simp
    with i k c show ?thesis by auto
  next
    case (Some a)
    then have "fst (chain (g # gs) ret) = ps" using g by simp
    with k show ?thesis by simp
  qed
qed

text \<open>
  Claim C9. When \<open>--stdin\<close> is given and standard input is a terminal, every payload
  the encoder yields, from the terminal, from the file and from the literal text,
  has \<open>exclude_active\<close> set, whatever the caller's option was: \<open>pipe\<close> runs first
  and sets the flag in the shared dictionary before its first \<open>yield\<close>.
\<close>

theorem stdin_tty_excludes_active:
  assumes "opt_stdin opts" and "isatty env"
  shows "\<forall>p\<in>set (fst (message_to_kitty env opts args)). p_exclude_active p"
proof -
  let ?ret = "\<lparr>p_match = opt_match opts, p_data = [], p_match_tab = opt_match_tab opts,
                 p_all = opt_all opts, p_exclude_active = opt_exclude_active opts, p_session_id = []\<rparr>"
  let ?rest = "(if opt_from_file opts \<noteq> [] then [file_pipe env (opt_from_file opts)] else []) @
                    [chunks env (join (ascii '' '') args)]"
  have m: "message_to_kitty env opts args = chain (pipe env # ?rest) ?ret"
    using assms(1) by (simp add: message_to_kitty_def Let_def)
  obtain ps r1 e where p: "pipe env ?ret = (ps, r1, e)" by (cases "pipe env ?ret") auto
  from pipe_tty_exclude[OF assms(2) p]
  have k: "(\<forall>p\<in>set ps. p_exclude_active p) \<and> p_exclude_active r1" .
  have rest: "list_all keeps_exclude ?rest"
    by (simp add: keeps_file_pipe keeps_chunks)
  show ?thesis
  proof (cases e)
    case None
    from chain_exclude[OF rest] k have i: "\<forall>p\<in>set (fst (chain ?rest r1)). p_exclude_active p"
      by blast
    obtain qs e2 where c: "chain ?rest r1 = (qs, e2)" by (cases "chain ?rest r1") auto
    have "fst (chain (pipe env # ?rest) ?ret) = ps @ qs"
      using p None c by simp
    with i k c show ?thesis unfolding m by auto
  next
    case (Some a)
    then have "fst (chain (pipe env # ?rest) ?ret) = ps" using p by simp
    with k show ?thesis unfolding m by simp
  qed
qed

theorem stdin_tty_excludes_active_witness:
  "opt_stdin wopts \<and> isatty wenv \<and> \<not> opt_exclude_active wopts \<and>
   map p_data (fst (message_to_kitty wenv wopts [ascii ''ab'', ascii ''c''])) =
     [ascii ''text:hi'', ascii ''text:a'', ascii ''text:ab c''] \<and>
   list_all p_exclude_active (fst (message_to_kitty wenv wopts [ascii ''ab'', ascii ''c'']))"
proof -
  have a: "opt_stdin wopts" by (simp add: wopts_def)
  have b: "isatty wenv" by (simp add: wenv_def)
  have c: "\<not> opt_exclude_active wopts" by (simp add: wopts_def)
  have p: "pipe wenv (ret0\<lparr>p_exclude_active := False\<rparr>) =
     ([ret0\<lparr>p_exclude_active := True, p_data := ascii ''text:hi''\<rparr>,
       ret0\<lparr>p_exclude_active := True, p_data := ascii ''text:a''\<rparr>],
      ret0\<lparr>p_exclude_active := True, p_data := ascii ''text:a''\<rparr>, None)"
    by (simp add: wenv_def pipe_def Let_def ascii_def)
  have ch: "chunks wenv (ascii ''ab'' @ ascii '' '' @ ascii ''c'') r =
     ([r\<lparr>p_data := ascii ''text:ab c''\<rparr>], r\<lparr>p_data := ascii ''text:ab c''\<rparr>, None)" for r
    by (simp add: wenv_def chunks_def Let_def ascii_def blocks.simps limit_def)
  have m: "message_to_kitty wenv wopts [ascii ''ab'', ascii ''c''] =
      chain [pipe wenv, chunks wenv (join (ascii '' '') [ascii ''ab'', ascii ''c''])]
        (ret0\<lparr>p_exclude_active := False\<rparr>)"
    by (simp add: message_to_kitty_def wopts_def ret0_def)
  have d: "map p_data (fst (message_to_kitty wenv wopts [ascii ''ab'', ascii ''c''])) =
     [ascii ''text:hi'', ascii ''text:a'', ascii ''text:ab c'']"
    unfolding m by (simp add: p ch)
  from stdin_tty_excludes_active[OF a b]
  have "list_all p_exclude_active (fst (message_to_kitty wenv wopts [ascii ''ab'', ascii ''c'']))"
    by (simp add: list_all_iff)
  with a b c d show ?thesis by (intro conjI)
qed

section \<open>Properties of the host operations\<close>

lemma remove_timer_fields [simp]:
  "sessions_map (remove_timer t st) = sessions_map st"
  "timers (remove_timer t st) = filter (\<lambda>x. fst x \<noteq> t) (timers st)"
  "timer_counter (remove_timer t st) = timer_counter st"
  "render_unfocused_cursor (remove_timer t st) = render_unfocused_cursor st"
  "child_input (remove_timer t st) = child_input st"
  "actions_on_close (remove_timer t st) = actions_on_close st"
  by (simp_all add: remove_timer_def)

lemma create_fields [simp]:
  "sessions_map (create_or_update_session sid st) = (sessions_map st)(sid \<mapsto> fresh_session sid st)"
  "timer_counter (create_or_update_session sid st) = timer_counter st"
  "render_unfocused_cursor (create_or_update_session sid st) = render_unfocused_cursor st"
  "child_input (create_or_update_session sid st) = child_input st"
  "actions_on_close (create_or_update_session sid st) = actions_on_close st"
  by (auto simp: create_or_update_session_def fresh_session_def Let_def split: option.splits)

lemma create_timers:
  "timers (create_or_update_session sid st) =
     (case sessions_map st sid of
        None \<Rightarrow> timers st
      | Some s \<Rightarrow> if timer_id s \<noteq> 0 then filter (\<lambda>x. fst x \<noteq> timer_id s) (timers st) else timers st)"
  by (auto simp: create_or_update_session_def Let_def split: option.splits)

lemma update_session_fields [simp]:
  "timers (update_session sid f st) = timers st"
  "timer_counter (update_session sid f st) = timer_counter st"
  "render_unfocused_cursor (update_session sid f st) = render_unfocused_cursor st"
  "child_input (update_session sid f st) = child_input st"
  "actions_on_close (update_session sid f st) = actions_on_close st"
  by (simp_all add: update_session_def split: option.splits)

lemma update_session_map:
  "sessions_map (update_session sid f st) =
     (case sessions_map st sid of None \<Rightarrow> sessions_map st | Some s \<Rightarrow> (sessions_map st)(sid \<mapsto> f s))"
  by (simp add: update_session_def split: option.splits)

lemma mark_fields [simp]:
  "timers (mark_window sid w st) = timers st"
  "timer_counter (mark_window sid w st) = timer_counter st"
  "render_unfocused_cursor (mark_window sid w st) = (render_unfocused_cursor st)(w := 1)"
  "child_input (mark_window sid w st) = child_input st"
  "actions_on_close (mark_window sid w st) = actions_on_close st"
  by (simp_all add: mark_window_def)

lemma unmark_fields [simp]:
  "timers (unmark_window sid w st) = timers st"
  "timer_counter (unmark_window sid w st) = timer_counter st"
  "render_unfocused_cursor (unmark_window sid w st) = (render_unfocused_cursor st)(w := 0)"
  "child_input (unmark_window sid w st) = child_input st"
  "actions_on_close (unmark_window sid w st) = actions_on_close st"
  by (simp_all add: unmark_window_def)

lemma mark_map:
  "sessions_map (mark_window sid w st) =
     (case sessions_map st sid of
        None \<Rightarrow> sessions_map st
      | Some s \<Rightarrow> (sessions_map st)(sid \<mapsto> s\<lparr>window_ids := insert w (window_ids s)\<rparr>))"
  by (simp add: mark_window_def update_session_map split: option.splits)

lemma unmark_map:
  "sessions_map (unmark_window sid w st) =
     (case sessions_map st sid of
        None \<Rightarrow> sessions_map st
      | Some s \<Rightarrow> (sessions_map st)(sid \<mapsto> s\<lparr>window_ids := window_ids s - {w}\<rparr>))"
  by (simp add: unmark_window_def update_session_map split: option.splits)

lemma fold_mark_fields [simp]:
  "timers (fold (mark_window sid) ws st) = timers st"
  "timer_counter (fold (mark_window sid) ws st) = timer_counter st"
  "child_input (fold (mark_window sid) ws st) = child_input st"
  "actions_on_close (fold (mark_window sid) ws st) = actions_on_close st"
  by (induction ws arbitrary: st; simp)+

lemma fold_unmark_fields [simp]:
  "timers (fold (unmark_window sid) ws st) = timers st"
  "timer_counter (fold (unmark_window sid) ws st) = timer_counter st"
  "child_input (fold (unmark_window sid) ws st) = child_input st"
  "actions_on_close (fold (unmark_window sid) ws st) = actions_on_close st"
  by (induction ws arbitrary: st; simp)+

lemma fold_mark_cursor:
  "render_unfocused_cursor (fold (mark_window sid) ws st) =
     (\<lambda>w. if w \<in> set ws then 1 else render_unfocused_cursor st w)"
  by (induction ws arbitrary: st) (auto simp: fun_eq_iff)

lemma fold_unmark_cursor:
  "render_unfocused_cursor (fold (unmark_window sid) ws st) =
     (\<lambda>w. if w \<in> set ws then 0 else render_unfocused_cursor st w)"
  by (induction ws arbitrary: st) (auto simp: fun_eq_iff)

lemma fold_mark_map:
  "sessions_map st sid = Some s \<Longrightarrow>
   sessions_map (fold (mark_window sid) ws st) =
     (sessions_map st)(sid \<mapsto> s\<lparr>window_ids := window_ids s \<union> set ws\<rparr>)"
proof (induction ws arbitrary: st s)
  case Nil
  then show ?case by (simp add: fun_upd_idem)
next
  case (Cons w ws)
  have m: "sessions_map (mark_window sid w st) sid = Some (s\<lparr>window_ids := insert w (window_ids s)\<rparr>)"
    using Cons.prems by (simp add: mark_map)
  have u: "insert w (window_ids s) \<union> set ws = window_ids s \<union> insert w (set ws)" by auto
  show ?case
    using Cons.IH[OF m] Cons.prems by (auto simp: mark_map u fun_eq_iff)
qed

lemma fold_unmark_map:
  "sessions_map st sid = Some s \<Longrightarrow>
   sessions_map (fold (unmark_window sid) ws st) =
     (sessions_map st)(sid \<mapsto> s\<lparr>window_ids := window_ids s - set ws\<rparr>)"
proof (induction ws arbitrary: st s)
  case Nil
  then show ?case by (simp add: fun_upd_idem)
next
  case (Cons w ws)
  have m: "sessions_map (unmark_window sid w st) sid = Some (s\<lparr>window_ids := window_ids s - {w}\<rparr>)"
    using Cons.prems by (simp add: unmark_map)
  have u: "window_ids s - {w} - set ws = window_ids s - insert w (set ws)" by auto
  show ?case
    using Cons.IH[OF m] Cons.prems by (auto simp: unmark_map u fun_eq_iff)
qed

lemma clear_fields [simp]:
  "timers (clear_unfocused_cursors boss sid st) = timers st"
  "timer_counter (clear_unfocused_cursors boss sid st) = timer_counter st"
  "child_input (clear_unfocused_cursors boss sid st) = child_input st"
  "actions_on_close (clear_unfocused_cursors boss sid st) = actions_on_close st"
  "sessions_map (clear_unfocused_cursors boss sid st) = (sessions_map st)(sid := None)"
  by (auto simp: clear_unfocused_cursors_def split: option.splits)

lemma clear_cursor:
  "render_unfocused_cursor (clear_unfocused_cursors boss sid st) =
     (case sessions_map st sid of
        None \<Rightarrow> render_unfocused_cursor st
      | Some s \<Rightarrow> (\<lambda>w. if w \<in> window_ids s \<and> w \<in> window_id_map boss then 0
                        else render_unfocused_cursor st w))"
  by (simp add: clear_unfocused_cursors_def split: option.splits)

lemma schedule_fields [simp]:
  "timers (schedule_expiry env sid st) = timers st @ [(timer_counter st + 1, sid, blink_time env)]"
  "timer_counter (schedule_expiry env sid st) = timer_counter st + 1"
  "render_unfocused_cursor (schedule_expiry env sid st) = render_unfocused_cursor st"
  "child_input (schedule_expiry env sid st) = child_input st"
  "actions_on_close (schedule_expiry env sid st) = actions_on_close st"
  by (simp_all add: schedule_expiry_def add_timer_def Let_def)

lemma schedule_map:
  "sessions_map (schedule_expiry env sid st) =
     (case sessions_map st sid of
        None \<Rightarrow> sessions_map st
      | Some s \<Rightarrow> (sessions_map st)(sid \<mapsto> s\<lparr>timer_id := timer_counter st + 1\<rparr>))"
  by (simp add: schedule_expiry_def add_timer_def Let_def update_session_map split: option.splits)

lemma decode_session_start [simp]:
  "decode_data env (ascii ''session:start'') = Inr (None, ascii ''start'')"
  by (simp add: decode_data_def str_partition_def ascii_def)

lemma decode_session_end [simp]:
  "decode_data env (ascii ''session:end'') = Inr (None, ascii ''end'')"
  by (simp add: decode_data_def str_partition_def ascii_def)

lemma start_neq_end [simp]: "ascii ''start'' \<noteq> ascii ''end''"
  by (simp add: ascii_def)

section \<open>Properties of the handler\<close>

lemma request_fields [simp]:
  "p_match (request d sid) = []"
  "p_data (request d sid) = ascii d"
  "p_match_tab (request d sid) = []"
  "p_all (request d sid) = True"
  "p_exclude_active (request d sid) = False"
  "p_session_id (request d sid) = ascii sid"
  by (simp_all add: request_def)

lemma deliver_bytes:
  "fst (deliver env sid (Some (Bytes b)) ws st) = None \<and>
   child_input (snd (deliver env sid (Some (Bytes b)) ws st)) = child_input st @ map (\<lambda>w. (w, b)) ws"
  by (induction ws arbitrary: st) (simp_all add: Let_def write_to_child_def)

lemma deliver_key_writes:
  "fst (deliver env sid (Some (KeyEvent k)) ws st) = None"
  by (induction ws arbitrary: st) (simp_all add: Let_def)

lemma deliver_unbound:
  "ws \<noteq> [] \<Longrightarrow> fst (deliver env sid None ws st) = Some (UnboundLocalError ''data'')"
  by (cases ws) (simp_all add: Let_def)

lemma session_tag_other [simp]:
  "ascii ''session'' \<noteq> ascii ''text''"
  "ascii ''session'' \<noteq> ascii ''base64''"
  "ascii ''session'' \<noteq> ascii ''kitty-key''"
  by (simp_all add: ascii_def)

lemma decode_session:
  assumes "payload_encoding p = ascii ''session''"
  shows "decode_data env (p_data p) = Inr (None, payload_text p)"
proof -
  obtain encoding sep q where sp: "str_partition 58 (p_data p) = (encoding, sep, q)"
    by (cases "str_partition 58 (p_data p)") auto
  with assms have "encoding = ascii ''session''" "payload_text p = q"
    by (simp_all add: payload_encoding_def payload_text_def)
  then show ?thesis by (simp add: decode_data_def sp)
qed

text \<open>
  Claim C7. For every payload whose data is \<open>session:start\<close> or \<open>session:end\<close>, in
  every state, for every registry and whatever the other fields of the payload are,
  the handler calls \<open>write_to_child\<close> on no window: the record of the calls is the
  same after the request as before it (also when target resolution raises).
\<close>

theorem session_control_writes_nothing:
  assumes "p_data p = ascii ''session:start'' \<or> p_data p = ascii ''session:end''"
  shows "child_input (snd (response_from_kitty env boss window p st)) = child_input st"
proof (cases "resolve_windows boss p")
  case (Inl e)
  then show ?thesis by (simp add: response_from_kitty_def)
next
  case (Inr windows)
  from assms show ?thesis
  proof
    assume "p_data p = ascii ''session:start''"
    then show ?thesis
      using Inr by (cases window) (simp_all add: response_from_kitty_def Let_def)
  next
    assume "p_data p = ascii ''session:end''"
    then show ?thesis
      using Inr by (simp add: response_from_kitty_def Let_def)
  qed
qed

theorem session_control_writes_nothing_witness:
  "(p_data (request ''session:start'' ''s1'') = ascii ''session:start'' \<or>
    p_data (request ''session:start'' ''s1'') = ascii ''session:end'') \<and>
   child_input (snd (response_from_kitty henv boss3 (Some 1) (request ''session:start'' ''s1'') init)) = [] \<and>
   render_unfocused_cursor
     (snd (response_from_kitty henv boss3 (Some 1) (request ''session:start'' ''s1'') init)) 2 = 1"
proof -
  have a: "p_data (request ''session:start'' ''s1'') = ascii ''session:start'' \<or>
    p_data (request ''session:start'' ''s1'') = ascii ''session:end''"
    by (simp add: request_def)
  from session_control_writes_nothing[OF a, of henv boss3 "Some 1" init]
  have b: "child_input (snd (response_from_kitty henv boss3 (Some 1) (request ''session:start'' ''s1'') init)) = []"
    by (simp add: init_def)
  have r: "resolve_windows boss3 (request ''session:start'' ''s1'') = Inr [Some 1, Some 2, Some 3]"
    by (simp add: resolve_windows_def request_def boss3_def)
  have c: "render_unfocused_cursor
     (snd (response_from_kitty henv boss3 (Some 1) (request ''session:start'' ''s1'') init)) 2 = 1"
    by (simp add: response_from_kitty_def r Let_def fold_mark_cursor actual_windows_def)
  from a b c show ?thesis by (intro conjI)
qed

text \<open>
  Claim C8. A payload tagged \<open>session\<close> whose control value is neither \<open>start\<close> nor
  \<open>end\<close> leaves the local variable \<open>data\<close> unassigned and takes the delivery branch;
  when the windows to act on are not empty, the first round of the loop reads \<open>data\<close>
  at line 217 and the handler ends with \<open>UnboundLocalError\<close>. The witness is the
  payload \<open>session:\<close>, with an empty control value.
\<close>

theorem unassigned_data_raises:
  assumes "payload_encoding p = ascii ''session''"
      and "payload_text p \<noteq> ascii ''start''" and "payload_text p \<noteq> ascii ''end''"
      and "resolve_windows boss p = Inr windows"
      and "actual_windows boss (p_exclude_active p) windows \<noteq> []"
  shows "fst (response_from_kitty env boss window p st) = Some (UnboundLocalError ''data'')"
  using assms by (simp add: response_from_kitty_def decode_session Let_def deliver_unbound)

theorem unassigned_data_raises_witness:
  "payload_encoding (request ''session:'' '''') = ascii ''session'' \<and>
   payload_text (request ''session:'' '''') = [] \<and>
   resolve_windows boss3 (request ''session:'' '''') = Inr [Some 1, Some 2, Some 3] \<and>
   actual_windows boss3 (p_exclude_active (request ''session:'' '''')) [Some 1, Some 2, Some 3] = [1, 2, 3] \<and>
   fst (response_from_kitty henv boss3 None (request ''session:'' '''') init) =
     Some (UnboundLocalError ''data'')"
proof -
  have a: "payload_encoding (request ''session:'' '''') = ascii ''session''"
    by (simp add: payload_encoding_def request_def str_partition_def ascii_def)
  have b: "payload_text (request ''session:'' '''') = []"
    by (simp add: payload_text_def request_def str_partition_def ascii_def)
  have c: "resolve_windows boss3 (request ''session:'' '''') = Inr [Some 1, Some 2, Some 3]"
    by (simp add: resolve_windows_def request_def boss3_def)
  have d: "actual_windows boss3 (p_exclude_active (request ''session:'' '''')) [Some 1, Some 2, Some 3] = [1, 2, 3]"
    by (simp add: actual_windows_def request_def)
  have e: "fst (response_from_kitty henv boss3 None (request ''session:'' '''') init) =
     Some (UnboundLocalError ''data'')"
    using unassigned_data_raises[OF a _ _ c, of henv None init] b d by (simp add: ascii_def)
  from a b c d e show ?thesis by (intro conjI)
qed

lemma text_hi [simp]: "decode_data env (ascii ''text:hi'') = Inr (Some (Bytes [104, 105]), [])"
  by (simp add: decode_data_def str_partition_def ascii_def utf8_encode_cp_def)

lemma empty_neq_control [simp]: "[] \<noteq> ascii ''end''" "[] \<noteq> ascii ''start''"
  by (simp_all add: ascii_def)

lemma bytes_delivery:
  assumes "resolve_windows boss p = Inr windows"
      and "decode_data env (p_data p) = Inr (Some (Bytes b), [])"
  shows "fst (response_from_kitty env boss window p st) = None \<and>
         child_input (snd (response_from_kitty env boss window p st)) =
           child_input st @ map (\<lambda>w. (w, b)) (actual_windows boss (p_exclude_active p) windows)"
  using assms by (simp add: response_from_kitty_def Let_def deliver_bytes)

text \<open>
  Claim C5, as amended. The test of \<open>all\<close> comes first (line 151): with \<open>all\<close> set the
  tab predicate is never looked at (see \<open>tab_match_bypassed_by_all\<close> below). For every
  request with \<open>all\<close> unset and a non-empty tab-match predicate that matches no tab,
  the handler raises \<open>MatchError\<close> carrying the predicate and \<open>tabs\<close>, and the state it
  leaves is the state it found: no write on any window.
\<close>

theorem no_tab_match_raises:
  assumes "\<not> p_all p" and "p_match_tab p \<noteq> []" and "match_tabs boss (p_match_tab p) = []"
  shows "response_from_kitty env boss window p st = (Some (MatchError (p_match_tab p) ''tabs''), st)"
  using assms by (simp add: response_from_kitty_def resolve_windows_def Let_def)

theorem no_tab_match_raises_witness:
  "\<not> p_all ((request ''text:hi'' '''')\<lparr>p_all := False, p_match_tab := ascii ''x''\<rparr>) \<and>
   p_match_tab ((request ''text:hi'' '''')\<lparr>p_all := False, p_match_tab := ascii ''x''\<rparr>) = [120] \<and>
   match_tabs boss3 [120] = [] \<and>
   response_from_kitty henv boss3 None
       ((request ''text:hi'' '''')\<lparr>p_all := False, p_match_tab := ascii ''x''\<rparr>) init =
     (Some (MatchError [120] ''tabs''), init)"
proof -
  let ?p = "(request ''text:hi'' '''')\<lparr>p_all := False, p_match_tab := ascii ''x''\<rparr>"
  have a: "\<not> p_all ?p" by simp
  have b: "p_match_tab ?p = [120]" by (simp add: ascii_def)
  have c: "match_tabs boss3 [120] = []" by (simp add: boss3_def ascii_def)
  have "response_from_kitty henv boss3 None ?p init = (Some (MatchError (p_match_tab ?p) ''tabs''), init)"
    by (rule no_tab_match_raises) (simp_all add: boss3_def ascii_def)
  with a b c show ?thesis by (simp only: simp_thms)
qed

text \<open>
  Claim C5 as stated fails: a request with \<open>all\<close> set and a tab predicate that matches
  no tab raises nothing and is written to all three windows.
\<close>

theorem tab_match_bypassed_by_all:
  "p_match_tab ((request ''text:hi'' '''')\<lparr>p_match_tab := ascii ''x''\<rparr>) = [120] \<and>
   match_tabs boss3 [120] = [] \<and>
   fst (response_from_kitty henv boss3 None ((request ''text:hi'' '''')\<lparr>p_match_tab := ascii ''x''\<rparr>) init) = None \<and>
   child_input
     (snd (response_from_kitty henv boss3 None ((request ''text:hi'' '''')\<lparr>p_match_tab := ascii ''x''\<rparr>) init)) =
     [(1, [104, 105]), (2, [104, 105]), (3, [104, 105])]"
proof -
  let ?p = "(request ''text:hi'' '''')\<lparr>p_match_tab := ascii ''x''\<rparr>"
  have b: "p_match_tab ?p = [120]" by (simp add: ascii_def)
  have c: "match_tabs boss3 [120] = []" by (simp add: boss3_def ascii_def)
  have r: "resolve_windows boss3 ?p = Inr [Some 1, Some 2, Some 3]"
    by (simp add: resolve_windows_def boss3_def)
  have d: "decode_data henv (p_data ?p) = Inr (Some (Bytes [104, 105]), [])" by simp
  have aw: "actual_windows boss3 (p_exclude_active ?p) [Some 1, Some 2, Some 3] = [1, 2, 3]"
    by (simp add: actual_windows_def)
  from bytes_delivery[OF r d, of None init] aw b c show ?thesis
    by (simp add: init_def)
qed



section \<open>Session controls\<close>

lemma start_fields:
  assumes "resolve_windows boss p = Inr windows" and "p_data p = ascii ''session:start''"
  shows "fst (response_from_kitty env boss window p st) = None"
    and "timers (snd (response_from_kitty env boss window p st)) =
           timers (create_or_update_session (p_session_id p) st) @
             [(timer_counter st + 1, p_session_id p, blink_time env)]"
    and "timer_counter (snd (response_from_kitty env boss window p st)) = timer_counter st + 1"
    and "child_input (snd (response_from_kitty env boss window p st)) = child_input st"
    and "render_unfocused_cursor (snd (response_from_kitty env boss window p st)) =
           (\<lambda>w. if w \<in> set (actual_windows boss (p_exclude_active p) windows) then 1
                else render_unfocused_cursor st w)"
    and "actions_on_close (snd (response_from_kitty env boss window p st)) =
           (case window of
              None \<Rightarrow> actions_on_close st
            | Some w \<Rightarrow> (actions_on_close st)(w := actions_on_close st w @ [p_session_id p]))"
  using assms
  by (cases window; simp add: response_from_kitty_def Let_def fold_mark_cursor create_timers cong: if_cong)+

lemma start_map:
  assumes "resolve_windows boss p = Inr windows" and "p_data p = ascii ''session:start''"
  shows "sessions_map (snd (response_from_kitty env boss window p st)) =
           (sessions_map st)(p_session_id p \<mapsto>
              (fresh_session (p_session_id p) st)
                \<lparr>timer_id := timer_counter st + 1,
                  window_ids := window_ids (fresh_session (p_session_id p) st) \<union>
                                set (actual_windows boss (p_exclude_active p) windows)\<rparr>)"
proof -
  let ?sid = "p_session_id p"
  let ?st1 = "create_or_update_session ?sid st"
  let ?st2 = "case window of None \<Rightarrow> ?st1
              | Some w \<Rightarrow> ?st1\<lparr>actions_on_close := (actions_on_close ?st1)(w := actions_on_close ?st1 w @ [?sid])\<rparr>"
  let ?st3 = "schedule_expiry env ?sid ?st2"
  have m2: "sessions_map ?st2 = (sessions_map st)(?sid \<mapsto> fresh_session ?sid st)"
    by (cases window) simp_all
  have c2: "timer_counter ?st2 = timer_counter st"
    by (cases window) simp_all
  have m3: "sessions_map ?st3 =
      (sessions_map st)(?sid \<mapsto> (fresh_session ?sid st)\<lparr>timer_id := timer_counter st + 1\<rparr>)"
    by (simp add: schedule_map m2 c2)
  then have "sessions_map ?st3 ?sid = Some ((fresh_session ?sid st)\<lparr>timer_id := timer_counter st + 1\<rparr>)"
    by simp
  from fold_mark_map[OF this]
  have "sessions_map (fold (mark_window ?sid) (actual_windows boss (p_exclude_active p) windows) ?st3) =
      (sessions_map st)(?sid \<mapsto> (fresh_session ?sid st)
                \<lparr>timer_id := timer_counter st + 1,
                  window_ids := window_ids (fresh_session ?sid st) \<union>
                                set (actual_windows boss (p_exclude_active p) windows)\<rparr>)"
    by (simp add: m3)
  then show ?thesis
    using assms by (simp add: response_from_kitty_def Let_def)
qed

lemma end_fields:
  assumes "resolve_windows boss p = Inr windows" and "p_data p = ascii ''session:end''"
  shows "fst (response_from_kitty env boss window p st) = None"
    and "timers (snd (response_from_kitty env boss window p st)) =
           timers (create_or_update_session (p_session_id p) st)"
    and "timer_counter (snd (response_from_kitty env boss window p st)) = timer_counter st"
    and "child_input (snd (response_from_kitty env boss window p st)) = child_input st"
    and "actions_on_close (snd (response_from_kitty env boss window p st)) = actions_on_close st"
  using assms by (simp_all add: response_from_kitty_def Let_def)

lemma end_map:
  assumes "resolve_windows boss p = Inr windows" and "p_data p = ascii ''session:end''"
  shows "sessions_map (snd (response_from_kitty env boss window p st)) =
           (sessions_map st)(p_session_id p := None)"
proof -
  let ?sid = "p_session_id p"
  have "sessions_map (create_or_update_session ?sid st) ?sid = Some (fresh_session ?sid st)" by simp
  from fold_unmark_map[OF this, of "actual_windows boss (p_exclude_active p) windows"]
  show ?thesis
    using assms by (simp add: response_from_kitty_def Let_def)
qed

lemma end_cursor:
  assumes "resolve_windows boss p = Inr windows" and "p_data p = ascii ''session:end''"
  shows "render_unfocused_cursor (snd (response_from_kitty env boss window p st)) =
           (\<lambda>w. if w \<in> set (actual_windows boss (p_exclude_active p) windows) \<or>
                   w \<in> window_ids (fresh_session (p_session_id p) st) \<and> w \<in> window_id_map boss
                then 0 else render_unfocused_cursor st w)"
proof -
  let ?sid = "p_session_id p"
  let ?aw = "actual_windows boss (p_exclude_active p) windows"
  let ?st1 = "create_or_update_session ?sid st"
  have "sessions_map ?st1 ?sid = Some (fresh_session ?sid st)" by simp
  from fold_unmark_map[OF this, of ?aw]
  have m: "sessions_map (fold (unmark_window ?sid) ?aw ?st1) ?sid =
      Some ((fresh_session ?sid st)\<lparr>window_ids := window_ids (fresh_session ?sid st) - set ?aw\<rparr>)"
    by simp
  have "render_unfocused_cursor (clear_unfocused_cursors boss ?sid (fold (unmark_window ?sid) ?aw ?st1)) =
      (\<lambda>w. if w \<in> set ?aw \<or> w \<in> window_ids (fresh_session ?sid st) \<and> w \<in> window_id_map boss
           then 0 else render_unfocused_cursor st w)"
    by (auto simp: clear_cursor m fold_unmark_cursor fun_eq_iff)
  then show ?thesis
    using assms by (simp add: response_from_kitty_def Let_def)
qed

text \<open>
  Claim C4, as amended. Line 198 clears the flag of every window the \<open>end\<close> request
  resolves to, whether or not the session is known (see \<open>end_unknown_clears_flag\<close>
  below), and target resolution may raise before the control is looked at. For an
  \<open>end\<close> control whose targets resolve and whose session id is not in the table, the
  handler raises nothing and leaves the state as it found it but for the flags of the
  windows it acts on, which are cleared: the session table, the timers, the flags of
  all other windows, the writes and the close actions are the same as before.
\<close>

theorem end_unknown_session:
  assumes "sessions_map st (p_session_id p) = None"
      and "p_data p = ascii ''session:end''"
      and "resolve_windows boss p = Inr windows"
  shows "response_from_kitty env boss window p st =
           (None, st\<lparr>render_unfocused_cursor :=
                        (\<lambda>w. if w \<in> set (actual_windows boss (p_exclude_active p) windows) then 0
                             else render_unfocused_cursor st w)\<rparr>)"
proof -
  let ?r = "response_from_kitty env boss window p st"
  note f = end_fields[OF assms(3) assms(2), of env window st]
  have fs: "window_ids (fresh_session (p_session_id p) st) = {}"
    using assms(1) by (simp add: fresh_session_def)
  have c: "render_unfocused_cursor (snd ?r) =
      (\<lambda>w. if w \<in> set (actual_windows boss (p_exclude_active p) windows) then 0
           else render_unfocused_cursor st w)"
    by (simp add: end_cursor[OF assms(3) assms(2)] fs)
  have t: "timers (snd ?r) = timers st"
    using assms(1) by (simp add: f(2) create_timers)
  have m: "sessions_map (snd ?r) = sessions_map st"
    using assms(1) by (auto simp: end_map[OF assms(3) assms(2)] fun_eq_iff)
  have "snd ?r = st\<lparr>render_unfocused_cursor :=
                        (\<lambda>w. if w \<in> set (actual_windows boss (p_exclude_active p) windows) then 0
                             else render_unfocused_cursor st w)\<rparr>"
    by (rule kitty.equality) (simp_all add: c t m f(3) f(4) f(5))
  with f(1) show ?thesis by (simp add: prod_eq_iff)
qed

lemma resolve_all3 [simp]: "resolve_windows boss3 (request d sid) = Inr [Some 1, Some 2, Some 3]"
  by (simp add: resolve_windows_def boss3_def)

lemma resolve_all23 [simp]: "resolve_windows boss23 (request d sid) = Inr [Some 2, Some 3]"
  by (simp add: resolve_windows_def boss23_def)

lemma blink_henv [simp]: "blink_time henv = 15"
  by (simp add: blink_time_def henv_def)

lemma a_neq_b [simp]: "ascii ''a'' \<noteq> ascii ''b''" "ascii ''b'' \<noteq> ascii ''a''"
  by (simp_all add: ascii_def)

lemma started_facts:
  "sessions_map started (ascii ''b'') = None"
  "render_unfocused_cursor started 2 = 1"
  "timers started = [(1, ascii ''a'', 15)]"
proof -
  have r: "resolve_windows boss3 (request ''session:start'' ''a'') = Inr [Some 1, Some 2, Some 3]"
    by simp
  have d: "p_data (request ''session:start'' ''a'') = ascii ''session:start''" by simp
  show "sessions_map started (ascii ''b'') = None"
    unfolding started_def by (simp add: start_map[OF r d] init_def)
  show "render_unfocused_cursor started 2 = 1"
    unfolding started_def by (simp add: start_fields(5)[OF r d] actual_windows_def)
  show "timers started = [(1, ascii ''a'', 15)]"
    unfolding started_def by (simp add: start_fields(2)[OF r d] create_timers init_def)
qed

theorem end_unknown_session_witness:
  "sessions_map started (p_session_id (request ''session:end'' ''b'')) = None \<and>
   p_data (request ''session:end'' ''b'') = ascii ''session:end'' \<and>
   resolve_windows boss3 (request ''session:end'' ''b'') = Inr [Some 1, Some 2, Some 3] \<and>
   response_from_kitty henv boss3 None (request ''session:end'' ''b'') started =
     (None, started\<lparr>render_unfocused_cursor :=
                      (\<lambda>w. if w \<in> {1, 2, 3} then 0 else render_unfocused_cursor started w)\<rparr>)"
proof -
  have a: "sessions_map started (p_session_id (request ''session:end'' ''b'')) = None"
    by (simp add: started_facts)
  have b: "p_data (request ''session:end'' ''b'') = ascii ''session:end''" by simp
  have c: "resolve_windows boss3 (request ''session:end'' ''b'') = Inr [Some 1, Some 2, Some 3]"
    by simp
  have aw: "set (actual_windows boss3 (p_exclude_active (request ''session:end'' ''b''))
              [Some 1, Some 2, Some 3]) = {1, 2, 3}"
    by (simp add: actual_windows_def)
  from end_unknown_session[OF a b c, of henv None]
  have "response_from_kitty henv boss3 None (request ''session:end'' ''b'') started =
     (None, started\<lparr>render_unfocused_cursor :=
                      (\<lambda>w. if w \<in> {1, 2, 3} then 0 else render_unfocused_cursor started w)\<rparr>)"
    unfolding aw .
  with a b c show ?thesis by (intro conjI)
qed

text \<open>
  Claim C4 as stated fails: session \<open>a\<close> is live on windows 1 to 3 and \<open>b\<close> is not in
  the table; an \<open>end\<close> control for \<open>b\<close> sent to all windows raises nothing and clears
  the flag of window 2, which was set.
\<close>

theorem end_unknown_clears_flag:
  "sessions_map started (ascii ''b'') = None \<and>
   render_unfocused_cursor started 2 = 1 \<and>
   fst (response_from_kitty henv boss3 None (request ''session:end'' ''b'') started) = None \<and>
   render_unfocused_cursor
     (snd (response_from_kitty henv boss3 None (request ''session:end'' ''b'') started)) 2 = 0"
proof -
  have r: "resolve_windows boss3 (request ''session:end'' ''b'') = Inr [Some 1, Some 2, Some 3]"
    by simp
  have d: "p_data (request ''session:end'' ''b'') = ascii ''session:end''" by simp
  have c: "render_unfocused_cursor
     (snd (response_from_kitty henv boss3 None (request ''session:end'' ''b'') started)) 2 = 0"
    by (simp add: end_cursor[OF r d] actual_windows_def)
  from started_facts(1,2) end_fields(1)[OF r d, of henv None started] c
  show ?thesis by (intro conjI)
qed

lemma hooked_facts:
  "timers hooked = [(1, ascii ''a'', 15)]"
  "timer_counter hooked = 1"
  "actions_on_close hooked (Suc 0) = [ascii ''a'']"
  "sessions_map hooked (ascii ''a'') =
     Some \<lparr>session_id = ascii ''a'', window_ids = {1, 2, 3}, timer_id = 1\<rparr>"
proof -
  have r: "resolve_windows boss3 (request ''session:start'' ''a'') = Inr [Some 1, Some 2, Some 3]"
    by simp
  have d: "p_data (request ''session:start'' ''a'') = ascii ''session:start''" by simp
  show "timers hooked = [(1, ascii ''a'', 15)]"
    unfolding hooked_def by (simp add: start_fields(2)[OF r d] create_timers init_def)
  show "timer_counter hooked = 1"
    unfolding hooked_def by (simp add: start_fields(3)[OF r d] init_def)
  show "actions_on_close hooked (Suc 0) = [ascii ''a'']"
    unfolding hooked_def by (simp add: start_fields(6)[OF r d] init_def)
  show "sessions_map hooked (ascii ''a'') =
     Some \<lparr>session_id = ascii ''a'', window_ids = {1, 2, 3}, timer_id = 1\<rparr>"
    unfolding hooked_def
    by (auto simp: start_map[OF r d] init_def fresh_session_def actual_windows_def)
qed

lemma orphaned_facts:
  "timers orphaned = [(1, ascii ''a'', 15)]"
  "timer_counter orphaned = 1"
  "sessions_map orphaned (ascii ''a'') = None"
  by (simp_all add: orphaned_def window_closed_def hooked_facts)

lemma restarted_facts:
  "timers restarted = [(1, ascii ''a'', 15), (2, ascii ''a'', 15)]"
  "sessions_map restarted (ascii ''a'') =
     Some \<lparr>session_id = ascii ''a'', window_ids = {2, 3}, timer_id = 2\<rparr>"
proof -
  have r: "resolve_windows boss23 (request ''session:start'' ''a'') = Inr [Some 2, Some 3]"
    by simp
  have d: "p_data (request ''session:start'' ''a'') = ascii ''session:start''" by simp
  show "timers restarted = [(1, ascii ''a'', 15), (2, ascii ''a'', 15)]"
    unfolding restarted_def by (simp add: start_fields(2)[OF r d] create_timers orphaned_facts)
  show "sessions_map restarted (ascii ''a'') =
     Some \<lparr>session_id = ascii ''a'', window_ids = {2, 3}, timer_id = 2\<rparr>"
    unfolding restarted_def
    by (auto simp: start_map[OF r d] orphaned_facts fresh_session_def actual_windows_def)
qed

text \<open>
  Claim C2 on the code. Session \<open>a\<close> is started from window 1, window 1 is closed,
  and \<open>a\<close> is started again. The close action pops the session and leaves its timer
  scheduled; the second \<open>start\<close> finds no session, so it has no timer to cancel and
  schedules another: two timers are outstanding for \<open>a\<close>.
\<close>

theorem close_hook_leaves_timer:
  "actions_on_close hooked 1 = [ascii ''a''] \<and>
   timers_of (ascii ''a'') hooked = [1] \<and>
   sessions_map orphaned (ascii ''a'') = None \<and>
   timers_of (ascii ''a'') orphaned = [1] \<and>
   timers_of (ascii ''a'') restarted = [1, 2]"
  by (simp add: timers_of_def hooked_facts orphaned_facts restarted_facts)

text \<open>
  Claim C3 on the code. In the state the close action leaves, a \<open>start\<close> control for
  \<open>a\<close> followed by an \<open>end\<close> control for \<open>a\<close>, both sent to all windows, raises
  nothing, removes the session and clears the flags, and timer 1 is still outstanding
  for \<open>a\<close>.
\<close>

theorem start_end_keeps_stale_timer:
  "fst (response_from_kitty henv boss23 None (request ''session:start'' ''a'') orphaned) = None \<and>
   fst (response_from_kitty henv boss23 None (request ''session:end'' ''a'') restarted) = None \<and>
   sessions_map ended (ascii ''a'') = None \<and>
   render_unfocused_cursor ended 2 = 0 \<and>
   render_unfocused_cursor ended 3 = 0 \<and>
   timers_of (ascii ''a'') ended = [1]"
proof -
  have r: "resolve_windows boss23 (request d ''a'') = Inr [Some 2, Some 3]" for d
    by simp
  have ds: "p_data (request ''session:start'' ''a'') = ascii ''session:start''" by simp
  have de: "p_data (request ''session:end'' ''a'') = ascii ''session:end''" by simp
  have t: "timers ended = [(1, ascii ''a'', 15)]"
    unfolding ended_def by (simp add: end_fields(2)[OF r de] create_timers restarted_facts)
  have m: "sessions_map ended (ascii ''a'') = None"
    unfolding ended_def by (simp add: end_map[OF r de])
  have c: "render_unfocused_cursor ended 2 = 0" "render_unfocused_cursor ended 3 = 0"
    unfolding ended_def by (simp_all add: end_cursor[OF r de] actual_windows_def)
  from start_fields(1)[OF r ds, of henv None orphaned] end_fields(1)[OF r de, of henv None restarted] t m c
  show ?thesis by (simp add: timers_of_def)
qed

section \<open>Sessions without a stale timer\<close>

lemma create_cancels_recorded:
  assumes "recorded_timers sid st"
  shows "timers_of sid (create_or_update_session sid st) = []"
proof -
  have r: "\<And>t. t \<in> set (timers st) \<Longrightarrow> fst (snd t) = sid \<Longrightarrow>
             fst t \<noteq> 0 \<and> (\<exists>s. sessions_map st sid = Some s \<and> timer_id s = fst t)"
    using assms by (auto simp: recorded_timers_def list_all_iff split: option.splits)
  show ?thesis
  proof (cases "sessions_map st sid")
    case None
    with r have "\<And>t. t \<in> set (timers st) \<Longrightarrow> fst (snd t) \<noteq> sid" by fastforce
    then show ?thesis
      using None by (simp add: timers_of_def create_timers filter_empty_conv)
  next
    case (Some s)
    with r have k: "\<And>t. t \<in> set (timers st) \<Longrightarrow> fst (snd t) = sid \<Longrightarrow> timer_id s = fst t \<and> fst t \<noteq> 0"
      by fastforce
    show ?thesis
    proof (cases "timer_id s = 0")
      case True
      have "\<And>t. t \<in> set (timers st) \<Longrightarrow> fst (snd t) \<noteq> sid"
      proof
        fix t assume "t \<in> set (timers st)" "fst (snd t) = sid"
        from k[OF this] have "timer_id s = fst t" and "fst t \<noteq> 0" by blast+
        with True show False by simp
      qed
      then show ?thesis
        using Some True by (simp add: timers_of_def create_timers filter_empty_conv)
    next
      case False
      have nk: "fst t = timer_id s" if "t \<in> set (timers st)" and "fst (snd t) = sid" for t
        using k[OF that] by simp
      have "filter (\<lambda>t. fst (snd t) = sid) (filter (\<lambda>x. fst x \<noteq> timer_id s) (timers st)) = []"
        unfolding filter_empty_conv
      proof
        fix t assume "t \<in> set (filter (\<lambda>x. fst x \<noteq> timer_id s) (timers st))"
        then have "t \<in> set (timers st)" and "fst t \<noteq> timer_id s" by simp_all
        with nk[of t] show "fst (snd t) \<noteq> sid" by blast
      qed
      then show ?thesis
        using Some False by (simp add: timers_of_def create_timers)
    qed
  qed
qed

lemma deliver_timers:
  "timers (snd (deliver env sid data ws st)) = timers st"
  by (induction ws arbitrary: st)
     (auto simp: Let_def write_to_child_def split: option.splits decoded.splits)

text \<open>
  In every state without a stale timer for the id, a \<open>start\<close> control cancels the
  timer the session records and leaves exactly one timer for the id, again the one
  the session records.
\<close>

lemma start_one_timer:
  assumes "recorded_timers (p_session_id p) st"
      and "resolve_windows boss p = Inr windows" and "p_data p = ascii ''session:start''"
  shows "timers_of (p_session_id p) (snd (response_from_kitty env boss window p st)) =
           [timer_counter st + 1] \<and>
         recorded_timers (p_session_id p) (snd (response_from_kitty env boss window p st))"
proof -
  let ?sid = "p_session_id p"
  let ?r = "snd (response_from_kitty env boss window p st)"
  note f = start_fields[OF assms(2,3), of env window st]
  from create_cancels_recorded[OF assms(1)]
  have c: "filter (\<lambda>t. fst (snd t) = ?sid) (timers (create_or_update_session ?sid st)) = []"
    by (simp add: timers_of_def)
  have t: "timers_of ?sid ?r = [timer_counter st + 1]"
    by (simp add: timers_of_def f(2) c)
  have "\<And>t. t \<in> set (timers ?r) \<Longrightarrow> fst (snd t) = ?sid \<Longrightarrow> fst t = timer_counter st + 1"
    using c by (auto simp: f(2) filter_empty_conv)
  then have "recorded_timers ?sid ?r"
    by (auto simp: recorded_timers_def list_all_iff start_map[OF assms(2,3)])
  with t show ?thesis by simp
qed

text \<open>The same for a payload that carries data together with a session id.\<close>

lemma refresh_one_timer:
  assumes "recorded_timers (p_session_id p) st" and "p_session_id p \<noteq> []"
      and "resolve_windows boss p = Inr windows"
      and "decode_data env (p_data p) = Inr (Some d, [])"
  shows "timers_of (p_session_id p) (snd (response_from_kitty env boss window p st)) =
           [timer_counter st + 1]"
proof -
  let ?sid = "p_session_id p"
  from create_cancels_recorded[OF assms(1)]
  have c: "filter (\<lambda>t. fst (snd t) = ?sid) (timers (create_or_update_session ?sid st)) = []"
    by (simp add: timers_of_def)
  have "timers (snd (response_from_kitty env boss window p st)) =
          timers (create_or_update_session ?sid st) @ [(timer_counter st + 1, ?sid, blink_time env)]"
    using assms(2,3,4) by (simp add: response_from_kitty_def Let_def deliver_timers)
  then show ?thesis by (simp add: timers_of_def c)
qed

text \<open>Two \<open>start\<close> controls in a row leave one timer, the second.\<close>

lemma two_starts_one_timer:
  assumes "recorded_timers (p_session_id p) st"
      and "resolve_windows boss p = Inr windows" and "p_data p = ascii ''session:start''"
  shows "timers_of (p_session_id p)
           (snd (response_from_kitty env boss window p
                  (snd (response_from_kitty env boss window p st)))) = [timer_counter st + 2]"
proof -
  let ?st1 = "snd (response_from_kitty env boss window p st)"
  from start_one_timer[OF assms, of env window] have r1: "recorded_timers (p_session_id p) ?st1"
    by simp
  have c1: "timer_counter ?st1 = timer_counter st + 1"
    by (rule start_fields(3)[OF assms(2,3)])
  from start_one_timer[OF r1 assms(2,3), of env window] show ?thesis
    by (simp add: c1)
qed

text \<open>
  In every state without a stale timer for the id, a \<open>start\<close> and then an \<open>end\<close>
  control for the same id and the same targets raise nothing, remove the session,
  leave no timer for the id, and clear the flag of every window acted on and of every
  earlier member the registry knows.
\<close>

lemma start_then_end:
  assumes "recorded_timers (p_session_id p) st"
      and "resolve_windows boss p = Inr windows"
      and "p_data p = ascii ''session:start''"
      and "resolve_windows boss q = Inr windows"
      and "p_data q = ascii ''session:end''"
      and "p_session_id q = p_session_id p" and "p_exclude_active q = p_exclude_active p"
  shows "fst (response_from_kitty env boss window p st) = None \<and>
         fst (response_from_kitty env boss window' q (snd (response_from_kitty env boss window p st))) = None \<and>
         sessions_map
           (snd (response_from_kitty env boss window' q (snd (response_from_kitty env boss window p st))))
           (p_session_id p) = None \<and>
         timers_of (p_session_id p)
           (snd (response_from_kitty env boss window' q (snd (response_from_kitty env boss window p st)))) = [] \<and>
         (\<forall>w. w \<in> set (actual_windows boss (p_exclude_active p) windows) \<or>
               w \<in> window_ids (fresh_session (p_session_id p) st) \<and> w \<in> window_id_map boss \<longrightarrow>
            render_unfocused_cursor
              (snd (response_from_kitty env boss window' q (snd (response_from_kitty env boss window p st))))
              w = 0)"
proof -
  let ?sid = "p_session_id p"
  let ?st1 = "snd (response_from_kitty env boss window p st)"
  let ?st2 = "snd (response_from_kitty env boss window' q ?st1)"
  note f = start_fields[OF assms(2,3), of env window st]
  note g = end_fields[OF assms(4,5), of env window' ?st1]
  from start_one_timer[OF assms(1,2,3), of env window]
  have r1: "recorded_timers (p_session_id q) ?st1" by (simp add: assms(6))
  have t: "timers_of ?sid ?st2 = []"
    using create_cancels_recorded[OF r1] by (simp add: timers_of_def g(2) assms(6))
  have m: "sessions_map ?st2 ?sid = None"
    by (simp add: end_map[OF assms(4,5)] assms(6))
  have fs: "window_ids (fresh_session ?sid ?st1) =
      window_ids (fresh_session ?sid st) \<union> set (actual_windows boss (p_exclude_active p) windows)"
    by (simp add: fresh_session_def start_map[OF assms(2,3)])
  have c: "\<forall>w. w \<in> set (actual_windows boss (p_exclude_active p) windows) \<or>
               w \<in> window_ids (fresh_session ?sid st) \<and> w \<in> window_id_map boss \<longrightarrow>
            render_unfocused_cursor ?st2 w = 0"
    by (auto simp: end_cursor[OF assms(4,5)] assms(6,7) fs)
  from f(1) g(1) m t c show ?thesis by (intro conjI)
qed

end
